theory Spec2Isabelle
  imports Complex_Main
begin

section \<open>pycomotive: rolling stock, consists and cargo loading\<close>

text \<open>
  A shallow embedding of \<^verbatim>\<open>src/pycomotive.py\<close>. Every number the program can hold (a
  Python int or a finite float) is a rational, so masses, lengths and fractions are
  modelled as \<open>rat\<close> and the arithmetic is exact: the rounding of Python's floats is
  not modelled. Consist numbers are Python ints (\<open>int\<close>). Exceptions are values of the
  type \<open>error\<close>; a method that mutates \<open>self\<close> returns the updated object.
\<close>

subsection \<open>Data model\<close>

datatype error = ZeroDivisionError | ValueError | AttributeError | IndexError

text \<open>
  The fields of the two classes share names in the source (\<open>number\<close>, \<open>road\<close>,
  \<open>length\<close>, \<open>weight\<close>, \<open>maxspeed\<close>); the fields of \<open>Locomotive\<close> carry the prefix
  \<open>loco_\<close> here, and \<open>length\<close> of a car is \<open>car_length\<close>.
\<close>

record Locomotive =
  loco_name :: string
  loco_number :: int
  loco_road :: string
  lclass :: string
  loco_length :: rat
  loco_weight :: rat
  power :: rat
  loco_maxspeed :: rat

record RollingStock =
  car_type :: string
  road :: string
  number :: int
  color :: string
  car_length :: rat
  dry_mass :: rat
  weight :: rat
  capacity :: rat
  maxspeed :: rat

text \<open>\<^verbatim>\<open>RollingStock.__init__\<close>: the weight starts as \<open>dry_mass + load_mass\<close>. The source's
  defaults are \<open>load_mass = 0\<close> and \<open>maxspeed = 1000\<close>.\<close>

definition RollingStock_init ::
  "string \<Rightarrow> string \<Rightarrow> int \<Rightarrow> string \<Rightarrow> rat \<Rightarrow> rat \<Rightarrow> rat \<Rightarrow> rat \<Rightarrow> rat \<Rightarrow> RollingStock" where
  "RollingStock_init ct rd n col len dm cap load_mass ms =
     \<lparr>car_type = ct, road = rd, number = n, color = col, car_length = len,
      dry_mass = dm, weight = dm + load_mass, capacity = cap, maxspeed = ms\<rparr>"

subsection \<open>RollingStock: fill ratio, load, unload\<close>

text \<open>\<^verbatim>\<open>isfull\<close> is \<open>(self.weight - self.dry_mass)/self.capacity\<close>; Python raises
  ZeroDivisionError when the capacity is 0.\<close>

definition isfull :: "RollingStock \<Rightarrow> error + rat" where
  "isfull self =
     (if capacity self = 0 then Inl ZeroDivisionError
      else Inr ((weight self - dry_mass self) / capacity self))"

text \<open>\<^verbatim>\<open>load\<close> reads \<open>isfull\<close> in its test and again in the else branch; an exception
  is raised before any assignment, so a failing call leaves the car as it was.\<close>

definition load :: "RollingStock \<Rightarrow> rat \<Rightarrow> error + (RollingStock \<times> rat)" where
  "load self mass =
     (case isfull self of
        Inl err \<Rightarrow> Inl err
      | Inr f \<Rightarrow>
          if mass \<le> (1 - f) * capacity self
          then Inr (self\<lparr>weight := weight self + mass\<rparr>, 0)
          else (case isfull self of
                  Inl err \<Rightarrow> Inl err
                | Inr f' \<Rightarrow>
                    let e = (1 - f') * capacity self
                    in Inr (self\<lparr>weight := dry_mass self + capacity self\<rparr>, mass - e)))"

text \<open>\<^verbatim>\<open>unload\<close>: \<open>p\<close> is replaced by \<open>isfull\<close> when it exceeds it, then \<open>p\<close> times the
  loaded mass is removed and returned.\<close>

definition unload :: "RollingStock \<Rightarrow> rat \<Rightarrow> error + (RollingStock \<times> rat)" where
  "unload self p =
     (case isfull self of
        Inl err \<Rightarrow> Inl err
      | Inr f \<Rightarrow>
          (case (if p > f then isfull self else Inr p) of
             Inl err \<Rightarrow> Inl err
           | Inr p' \<Rightarrow>
               let mass = p' * (weight self - dry_mass self)
               in Inr (self\<lparr>weight := weight self - mass\<rparr>, mass)))"

text \<open>The invariant the specification asks of a car.\<close>

definition within_capacity :: "RollingStock \<Rightarrow> bool" where
  "within_capacity self \<longleftrightarrow>
     dry_mass self \<le> weight self \<and> weight self \<le> dry_mass self + capacity self"

text \<open>The example car of the specification: dry mass 20000, capacity 50000.\<close>

definition example_car :: "rat \<Rightarrow> RollingStock" where
  "example_car load_mass =
     RollingStock_init ''Boxcar'' ''UP'' 100 ''red'' 15 20000 50000 load_mass 1000"





subsection \<open>Objects, references and the heap\<close>

text \<open>
  The classes define no \<open>__eq__\<close>, so \<open>deque.index\<close> compares units by identity. A
  unit in a stock is therefore a reference, and the heap gives the object behind each
  reference; \<open>isinstance(car, Locomotive)\<close> is the constructor test.
\<close>

type_synonym ref = nat

datatype obj = Loco Locomotive | Car RollingStock

type_synonym heap = "ref \<Rightarrow> obj"

fun obj_length :: "obj \<Rightarrow> rat" where
  "obj_length (Loco l) = loco_length l"
| "obj_length (Car c) = car_length c"

fun obj_weight :: "obj \<Rightarrow> rat" where
  "obj_weight (Loco l) = loco_weight l"
| "obj_weight (Car c) = weight c"

subsection \<open>The deque operations the program uses\<close>

text \<open>\<open>deque.index(x)\<close>: the position of the first element that is \<open>x\<close>, ValueError when
  there is none.\<close>

fun deque_index :: "'a list \<Rightarrow> 'a \<Rightarrow> error + nat" where
  "deque_index [] x = Inl ValueError"
| "deque_index (y # ys) x =
     (if y = x then Inr 0
      else (case deque_index ys x of Inl err \<Rightarrow> Inl err | Inr i \<Rightarrow> Inr (Suc i)))"

text \<open>\<open>deque.rotate(n)\<close>: \<open>n\<close> steps to the right, to the left when \<open>n\<close> is negative; an
  empty deque stays empty. (\<open>rotate k\<close> of the list library moves \<open>k\<close> elements from the
  front to the back.)\<close>

definition deque_rotate :: "int \<Rightarrow> 'a list \<Rightarrow> 'a list" where
  "deque_rotate n xs =
     (if xs = [] then [] else rotate (nat ((- n) mod int (length xs))) xs)"

subsection \<open>Consist\<close>

record Consist =
  consist_number :: int
  stock :: "ref list"

text \<open>\<^verbatim>\<open>Consist.__init__\<close> with one further argument, a sequence of units, which it copies
  into a new deque.\<close>

definition Consist_init :: "int \<Rightarrow> ref list \<Rightarrow> Consist" where
  "Consist_init n units = \<lparr>consist_number = n, stock = units\<rparr>"

text \<open>The two properties loop over the stock with an accumulator that starts at 0.\<close>

definition Consist_length :: "heap \<Rightarrow> Consist \<Rightarrow> rat" where
  "Consist_length h self = fold (\<lambda>car acc. acc + obj_length (h car)) (stock self) 0"

definition Consist_weight :: "heap \<Rightarrow> Consist \<Rightarrow> rat" where
  "Consist_weight h self = fold (\<lambda>car acc. acc + obj_weight (h car)) (stock self) 0"

definition attach :: "Consist \<Rightarrow> ref \<Rightarrow> Consist" where
  "attach self car = self\<lparr>stock := stock self @ [car]\<rparr>"

text \<open>The loop of \<^verbatim>\<open>separate\<close>: \<open>n\<close> times, \<open>new_stock.append(self.stock.popleft())\<close>;
  \<open>popleft\<close> on an empty deque raises IndexError. The first component is the stock
  left behind, also when the loop fails.\<close>

fun popleft_loop :: "nat \<Rightarrow> 'a list \<Rightarrow> 'a list \<Rightarrow> 'a list \<times> (error + 'a list)" where
  "popleft_loop 0 st new_stock = (st, Inr new_stock)"
| "popleft_loop (Suc n) st new_stock =
     (case st of
        [] \<Rightarrow> ([], Inl IndexError)
      | x # st' \<Rightarrow> popleft_loop n st' (new_stock @ [x]))"

text \<open>\<^verbatim>\<open>separate\<close> returns the consist as the call leaves it, and the new consist or the
  exception.\<close>

definition separate :: "Consist \<Rightarrow> ref \<Rightarrow> Consist \<times> (error + Consist)" where
  "separate self car =
     (case deque_index (stock self) car of
        Inl err \<Rightarrow> (self, Inl err)
      | Inr idx \<Rightarrow>
          let rotated = deque_rotate (- int idx) (stock self)
          in (case popleft_loop (length rotated - idx) rotated [] of
                (rest, Inl err) \<Rightarrow> (self\<lparr>stock := rest\<rparr>, Inl err)
              | (rest, Inr new_stock) \<Rightarrow>
                  (self\<lparr>stock := rest\<rparr>, Inr (Consist_init (consist_number self + 1) new_stock))))"

text \<open>A driver for sequences of \<open>attach\<close> and \<open>separate\<close> calls: the consists in existence
  are kept in a list, an operation names one by its position, and a \<open>separate\<close> that
  succeeds adds the new consist at the end.\<close>

datatype yard_op = Attach nat ref | Separate nat ref

fun apply_yard_op :: "yard_op \<Rightarrow> Consist list \<Rightarrow> Consist list" where
  "apply_yard_op (Attach i car) ys =
     (if i < length ys then ys[i := attach (ys ! i) car] else ys)"
| "apply_yard_op (Separate i car) ys =
     (if i < length ys
      then (case separate (ys ! i) car of
              (self', Inl err) \<Rightarrow> ys[i := self']
            | (self', Inr new) \<Rightarrow> ys[i := self'] @ [new])
      else ys)"

definition run_yard_ops :: "yard_op list \<Rightarrow> Consist list \<Rightarrow> Consist list" where
  "run_yard_ops ops ys = fold apply_yard_op ops ys"

subsection \<open>Cargo distribution\<close>

text \<open>\<open>str.title()\<close> on ASCII text: a letter that follows a letter is put in lower case,
  any other letter in upper case. Characters outside \<open>a-z\<close> and \<open>A-Z\<close> are kept.\<close>

definition is_lower :: "char \<Rightarrow> bool" where
  "is_lower c \<longleftrightarrow> 97 \<le> (of_char c :: nat) \<and> (of_char c :: nat) \<le> 122"

definition is_upper :: "char \<Rightarrow> bool" where
  "is_upper c \<longleftrightarrow> 65 \<le> (of_char c :: nat) \<and> (of_char c :: nat) \<le> 90"

definition to_upper :: "char \<Rightarrow> char" where
  "to_upper c = (if is_lower c then char_of ((of_char c :: nat) - 32) else c)"

definition to_lower :: "char \<Rightarrow> char" where
  "to_lower c = (if is_upper c then char_of ((of_char c :: nat) + 32) else c)"

fun title_from :: "bool \<Rightarrow> string \<Rightarrow> string" where
  "title_from prev [] = []"
| "title_from prev (c # cs) =
     (if is_lower c then (if prev then c else to_upper c) # title_from True cs
      else if is_upper c then (if prev then to_lower c else c) # title_from True cs
      else c # title_from False cs)"

definition title :: "string \<Rightarrow> string" where
  "title s = title_from False s"

text \<open>The loop of \<^verbatim>\<open>load_consist\<close> when \<open>typ\<close> is None: every unit of the stock gets
  \<open>car.load(cargo)\<close>, and a Locomotive has no method \<open>load\<close> (AttributeError). The heap
  is returned as the loop leaves it, also when it fails.\<close>

fun load_every :: "heap \<Rightarrow> rat \<Rightarrow> ref list \<Rightarrow> heap \<times> (error + rat)" where
  "load_every h cargo [] = (h, Inr cargo)"
| "load_every h cargo (car # cars) =
     (if cargo = 0 then (h, Inr cargo)
      else (case h car of
              Loco l \<Rightarrow> (h, Inl AttributeError)
            | Car c \<Rightarrow>
                (case load c cargo of
                   Inl err \<Rightarrow> (h, Inl err)
                 | Inr (c', rest) \<Rightarrow> load_every (h(car := Car c')) rest cars)))"

text \<open>The loop when a car type is given: a Locomotive is passed over (\<open>continue\<close>), then
  the cargo is tested, then the car type is compared with \<open>typ.title()\<close>.\<close>

fun load_matching :: "string \<Rightarrow> heap \<Rightarrow> rat \<Rightarrow> ref list \<Rightarrow> heap \<times> (error + rat)" where
  "load_matching typ h cargo [] = (h, Inr cargo)"
| "load_matching typ h cargo (car # cars) =
     (case h car of
        Loco l \<Rightarrow> load_matching typ h cargo cars
      | Car c \<Rightarrow>
          if cargo = 0 then (h, Inr cargo)
          else if car_type c = title typ
          then (case load c cargo of
                  Inl err \<Rightarrow> (h, Inl err)
                | Inr (c', rest) \<Rightarrow> load_matching typ (h(car := Car c')) rest cars)
          else load_matching typ h cargo cars)"

text \<open>\<^verbatim>\<open>load_consist\<close> returns the remaining cargo and the consist it was given; the progress
  bar and the pause between cars are not modelled.\<close>

definition load_consist ::
  "heap \<Rightarrow> rat \<Rightarrow> Consist \<Rightarrow> string option \<Rightarrow> heap \<times> (error + rat \<times> Consist)" where
  "load_consist h cargo con typ =
     (case (case typ of
              None \<Rightarrow> load_every h cargo (stock con)
            | Some t \<Rightarrow> load_matching t h cargo (stock con)) of
        (h', Inl err) \<Rightarrow> (h', Inl err)
      | (h', Inr cargo') \<Rightarrow> (h', Inr (cargo', con)))"

subsection \<open>Example objects\<close>

definition big_boy :: Locomotive where
  "big_boy = \<lparr>loco_name = ''Big Boy'', loco_number = 4004, loco_road = ''UP'',
     lclass = ''4-8-8-4'', loco_length = 40, loco_weight = 548000, power = 4700,
     loco_maxspeed = 130\<rparr>"

text \<open>A car with everything but its length, dry mass, capacity and load fixed.\<close>

definition plain_car :: "rat \<Rightarrow> rat \<Rightarrow> rat \<Rightarrow> rat \<Rightarrow> RollingStock" where
  "plain_car len dm cap load_mass =
     RollingStock_init ''Gondola'' ''UP'' 100 ''red'' len dm cap load_mass 1000"

text \<open>The heap of the examples: a locomotive at reference 0, then the cars A, B and C
  of the specification's example (lengths 10, 15 and 20), empty, at 1, 2 and 3.\<close>

definition example_heap :: heap where
  "example_heap =
     (\<lambda>r. Loco big_boy)
       (1 := Car (plain_car 10 20000 50000 0),
        2 := Car (plain_car 15 20000 50000 0),
        3 := Car (plain_car 20 20000 50000 0))"



subsection \<open>Helper facts about the fill ratio\<close>

lemma isfull_nonzero:
  "capacity self \<noteq> 0 \<Longrightarrow> isfull self = Inr ((weight self - dry_mass self) / capacity self)"
  by (simp add: isfull_def)

lemma isfull_zero: "capacity self = 0 \<Longrightarrow> isfull self = Inl ZeroDivisionError"
  by (simp add: isfull_def)

lemma free_capacity:
  fixes w d c :: rat
  assumes "c \<noteq> 0"
  shows "(1 - (w - d) / c) * c = c - (w - d)"
  using assms by (simp add: field_simps)


lemma load_cases:
  assumes "capacity self \<noteq> 0"
  shows "load self m =
     (if m \<le> capacity self - (weight self - dry_mass self)
      then Inr (self\<lparr>weight := weight self + m\<rparr>, 0)
      else Inr (self\<lparr>weight := dry_mass self + capacity self\<rparr>,
                m - (capacity self - (weight self - dry_mass self))))"
  using assms by (simp add: load_def isfull_nonzero free_capacity)

lemma unload_cases:
  assumes "capacity self \<noteq> 0"
  shows "unload self p =
     (let f = (weight self - dry_mass self) / capacity self;
          p' = (if p > f then f else p)
      in Inr (self\<lparr>weight := weight self - p' * (weight self - dry_mass self)\<rparr>,
              p' * (weight self - dry_mass self)))"
  using assms by (simp add: unload_def isfull_nonzero Let_def)

lemma load_zero_capacity: "capacity self = 0 \<Longrightarrow> load self m = Inl ZeroDivisionError"
  by (simp add: load_def isfull_zero)

lemma unload_zero_capacity: "capacity self = 0 \<Longrightarrow> unload self p = Inl ZeroDivisionError"
  by (simp add: unload_def isfull_zero)

subsection \<open>unload with the default fraction\<close>

text \<open>
  C1 states that \<open>unload(1.0)\<close> leaves a fill ratio of exactly 0 on every car whose
  weight is within capacity, and the docstring of \<open>unload\<close> says ``Default to fully
  unload''. The code replaces \<open>p\<close> by the fill ratio and then removes that fraction of
  the load, so a car that is not full keeps cargo. The example car (dry mass 20000,
  capacity 50000) with a load of 15000 is 30 percent full: \<open>unload(1)\<close> removes 4500,
  the weight becomes 30500 and the fill ratio 21 percent.
\<close>

theorem unload_default_keeps_cargo:
  "within_capacity (example_car 15000) \<and>
   unload (example_car 15000) 1 = Inr ((example_car 15000)\<lparr>weight := 30500\<rparr>, 4500) \<and>
   isfull ((example_car 15000)\<lparr>weight := 30500\<rparr>) = Inr (21 / 100)"
  by (simp add: within_capacity_def example_car_def RollingStock_init_def unload_def isfull_def)

subsection \<open>unload with a negative fraction\<close>




subsection \<open>The weight stays within capacity\<close>









subsection \<open>What load does\<close>










subsection \<open>Facts about the deque operations\<close>

lemma deque_index_absent: "x \<notin> set xs \<Longrightarrow> deque_index xs x = Inl ValueError"
  by (induction xs) auto

lemma deque_index_first:
  "x \<notin> set pre \<Longrightarrow> deque_index (pre @ x # suf) x = Inr (length pre)"
  by (induction pre) auto

lemma deque_rotate_left:
  assumes "k < length xs"
  shows "deque_rotate (- int k) xs = drop k xs @ take k xs"
proof -
  from assms have "xs \<noteq> []" by auto
  moreover from assms have "nat (int k mod int (length xs)) = k" by simp
  ultimately show ?thesis
    using assms by (simp add: deque_rotate_def rotate_drop_take)
qed

lemma popleft_loop_take:
  "n \<le> length st \<Longrightarrow> popleft_loop n st new_stock = (drop n st, Inr (new_stock @ take n st))"
proof (induction n arbitrary: st new_stock)
  case 0
  then show ?case by simp
next
  case (Suc n)
  then obtain x st' where st: "st = x # st'" by (cases st) auto
  with Suc.prems have "n \<le> length st'" by simp
  from Suc.IH [OF this] st show ?case by simp
qed

subsection \<open>separate\<close>

text \<open>The call on a stock written as prefix, unit, suffix, the unit not in the prefix:
  the index is the length of the prefix, the rotation brings the unit to the front, and
  the loop moves the unit and the suffix out.\<close>

lemma separate_at:
  assumes "car \<notin> set pre"
  shows "separate (self\<lparr>stock := pre @ car # suf\<rparr>) car =
           (self\<lparr>stock := pre\<rparr>,
            Inr \<lparr>consist_number = consist_number self + 1, stock = car # suf\<rparr>)"
proof -
  let ?xs = "pre @ car # suf"
  have idx: "deque_index ?xs car = Inr (length pre)"
    using assms by (rule deque_index_first)
  have rot: "deque_rotate (- int (length pre)) ?xs = (car # suf) @ pre"
    by (simp add: deque_rotate_left)
  have loop: "popleft_loop (length ((car # suf) @ pre) - length pre) ((car # suf) @ pre) []
                = (pre, Inr (car # suf))"
    by (simp add: popleft_loop_take)
  show ?thesis
    unfolding separate_def using idx rot loop
    by (simp add: Consist_init_def Let_def)
qed

text \<open>
  C6: when the unit is in the stock, the stock is \<open>pre @ unit # suf\<close> with the unit not
  in \<open>pre\<close> (so \<open>pre\<close> is what lies strictly before its first occurrence); after
  \<open>separate\<close> the original consist holds exactly \<open>pre\<close>, in order, and the new consist
  holds the unit followed by \<open>suf\<close>, in order, under the original number plus 1.
\<close>

theorem separate_partitions:
  assumes "car \<in> set (stock self)"
  shows "\<exists>pre suf. stock self = pre @ car # suf \<and> car \<notin> set pre \<and>
           separate self car =
             (self\<lparr>stock := pre\<rparr>,
              Inr \<lparr>consist_number = consist_number self + 1, stock = car # suf\<rparr>)"
proof -
  from assms obtain pre suf where split: "stock self = pre @ car # suf" "car \<notin> set pre"
    by (auto dest: split_list_first)
  have "self\<lparr>stock := pre @ car # suf\<rparr> = self"
    using split(1) by simp
  with separate_at [OF split(2), where self = self and suf = suf] split show ?thesis
    by auto
qed

theorem separate_partitions_witness:
  "(2::nat) \<in> set (stock \<lparr>consist_number = 7, stock = [1, 2, 3]\<rparr>) \<and>
   (\<exists>pre suf. [1, 2, 3] = pre @ 2 # suf \<and> (2::nat) \<notin> set pre \<and>
      separate \<lparr>consist_number = 7, stock = [1, 2, 3]\<rparr> 2 =
        (\<lparr>consist_number = 7, stock = pre\<rparr>, Inr \<lparr>consist_number = 8, stock = 2 # suf\<rparr>))"
  using separate_partitions [of 2 "\<lparr>consist_number = 7, stock = [1, 2, 3]\<rparr>"] by simp

text \<open>
  C7: when the unit is not in the stock, \<open>separate\<close> fails with the ValueError of
  \<open>deque.index\<close> (the NotFound condition of the specification), and the consist is as
  it was before the call.
\<close>

theorem separate_absent_fails:
  assumes "car \<notin> set (stock self)"
  shows "separate self car = (self, Inl ValueError)"
  using assms by (simp add: separate_def deque_index_absent)

theorem separate_absent_fails_witness:
  "(5::nat) \<notin> set (stock \<lparr>consist_number = 7, stock = [1, 2, 3]\<rparr>) \<and>
   separate \<lparr>consist_number = 7, stock = [1, 2, 3]\<rparr> 5
     = (\<lparr>consist_number = 7, stock = [1, 2, 3]\<rparr>, Inl ValueError)"
  using separate_absent_fails [of 5 "\<lparr>consist_number = 7, stock = [1, 2, 3]\<rparr>"] by simp

subsection \<open>Length and weight of a consist\<close>

lemma fold_accumulate:
  fixes f :: "'a \<Rightarrow> rat"
  shows "fold (\<lambda>x acc. acc + f x) xs a = a + sum_list (map f xs)"
  by (induction xs arbitrary: a) (simp_all add: add.assoc)

lemma Consist_length_sum:
  "Consist_length h self = (\<Sum>car\<leftarrow>stock self. obj_length (h car))"
  by (simp add: Consist_length_def fold_accumulate)

lemma Consist_weight_sum:
  "Consist_weight h self = (\<Sum>car\<leftarrow>stock self. obj_weight (h car))"
  by (simp add: Consist_weight_def fold_accumulate)

text \<open>
  C8: the length of a consist is the sum of the lengths of the units in its stock and
  its weight the sum of their weights; the same holds of every consist in existence
  after any sequence of \<open>attach\<close> and \<open>separate\<close> calls that starts from it (the
  properties are computed from the stock at every access).
\<close>

theorem consist_length_weight_sums:
  "Consist_length h self = (\<Sum>car\<leftarrow>stock self. obj_length (h car)) \<and>
   Consist_weight h self = (\<Sum>car\<leftarrow>stock self. obj_weight (h car)) \<and>
   (\<forall>c \<in> set (run_yard_ops ops [self]).
      Consist_length h c = (\<Sum>car\<leftarrow>stock c. obj_length (h car)) \<and>
      Consist_weight h c = (\<Sum>car\<leftarrow>stock c. obj_weight (h car)))"
  by (simp add: Consist_length_sum Consist_weight_sum)

theorem consist_length_weight_sums_witness:
  "\<lparr>consist_number = 8, stock = [2, 3, 0]\<rparr>
      \<in> set (run_yard_ops [Separate 0 2, Attach 1 0] [\<lparr>consist_number = 7, stock = [1, 2, 3]\<rparr>]) \<and>
   Consist_length example_heap \<lparr>consist_number = 8, stock = [2, 3, 0]\<rparr> = 75 \<and>
   Consist_weight example_heap \<lparr>consist_number = 8, stock = [2, 3, 0]\<rparr> = 588000"
proof -
  have mem: "\<lparr>consist_number = 8, stock = [2, 3, 0]\<rparr>
      \<in> set (run_yard_ops [Separate 0 2, Attach 1 0] [\<lparr>consist_number = 7, stock = [1, 2, 3]\<rparr>])"
    by (simp add: run_yard_ops_def separate_def deque_rotate_def Consist_init_def attach_def
        numeral_2_eq_2 Let_def)
  from consist_length_weight_sums
    [of example_heap "\<lparr>consist_number = 7, stock = [1, 2, 3]\<rparr>" "[Separate 0 2, Attach 1 0]"] mem
  have "Consist_length example_heap \<lparr>consist_number = 8, stock = [2, 3, 0]\<rparr>
          = (\<Sum>car\<leftarrow>stock \<lparr>consist_number = 8, stock = [2, 3, 0]\<rparr>. obj_length (example_heap car))"
    and "Consist_weight example_heap \<lparr>consist_number = 8, stock = [2, 3, 0]\<rparr>
          = (\<Sum>car\<leftarrow>stock \<lparr>consist_number = 8, stock = [2, 3, 0]\<rparr>. obj_weight (example_heap car))"
    by blast+
  then show ?thesis using mem
    by (simp add: example_heap_def plain_car_def RollingStock_init_def big_boy_def)
qed

text \<open>\<open>attach\<close> puts the unit at the end of the stock and adds its length and weight to
  those of the consist.\<close>

theorem attach_appends:
  "stock (attach self car) = stock self @ [car] \<and>
   consist_number (attach self car) = consist_number self \<and>
   Consist_length h (attach self car) = Consist_length h self + obj_length (h car) \<and>
   Consist_weight h (attach self car) = Consist_weight h self + obj_weight (h car)"
  by (simp add: attach_def Consist_length_sum Consist_weight_sum)

text \<open>A \<open>separate\<close> that succeeds loses nothing: the two stocks, one after the other, are
  the stock before the call, and the two lengths and the two weights add up to those
  before the call.\<close>

theorem separate_conserves:
  assumes "separate self car = (self', Inr new)"
  shows "stock self' @ stock new = stock self \<and>
         Consist_length h self' + Consist_length h new = Consist_length h self \<and>
         Consist_weight h self' + Consist_weight h new = Consist_weight h self"
proof -
  have "car \<in> set (stock self)"
  proof (rule ccontr)
    assume "car \<notin> set (stock self)"
    then have "separate self car = (self, Inl ValueError)"
      by (simp add: separate_def deque_index_absent)
    with assms show False by simp
  qed
  then obtain pre suf where split: "stock self = pre @ car # suf" "car \<notin> set pre"
    by (auto dest: split_list_first)
  have "self\<lparr>stock := pre @ car # suf\<rparr> = self"
    using split(1) by simp
  with separate_at [OF split(2), where self = self and suf = suf] assms
  have "stock self' = pre" and "stock new = car # suf" by auto
  with split(1) show ?thesis by (simp add: Consist_length_sum Consist_weight_sum)
qed

theorem separate_conserves_witness:
  "separate \<lparr>consist_number = 7, stock = [1, 2, 3]\<rparr> 2
      = (\<lparr>consist_number = 7, stock = [1]\<rparr>, Inr \<lparr>consist_number = 8, stock = [2, 3]\<rparr>) \<and>
   Consist_length example_heap \<lparr>consist_number = 7, stock = [1]\<rparr>
     + Consist_length example_heap \<lparr>consist_number = 8, stock = [2, 3]\<rparr>
     = Consist_length example_heap \<lparr>consist_number = 7, stock = [1, 2, 3]\<rparr>"
proof -
  have run: "separate \<lparr>consist_number = 7, stock = [1, 2, 3]\<rparr> 2
      = (\<lparr>consist_number = 7, stock = [1]\<rparr>, Inr \<lparr>consist_number = 8, stock = [2, 3]\<rparr>)"
    by (simp add: separate_def deque_rotate_def Consist_init_def Let_def numeral_2_eq_2)
  from separate_conserves [OF run, of example_heap] run show ?thesis by simp
qed

text \<open>The example of the specification: the consist of A (length 10), B (length 15)
  and C (length 20), separated at B, leaves A (length 10) and gives B, C (length 35).\<close>

theorem separate_example:
  "separate \<lparr>consist_number = 7, stock = [1, 2, 3]\<rparr> 2
      = (\<lparr>consist_number = 7, stock = [1]\<rparr>, Inr \<lparr>consist_number = 8, stock = [2, 3]\<rparr>) \<and>
   Consist_length example_heap \<lparr>consist_number = 7, stock = [1]\<rparr> = 10 \<and>
   Consist_length example_heap \<lparr>consist_number = 8, stock = [2, 3]\<rparr> = 35"
  by (simp add: separate_def deque_rotate_def Consist_init_def Let_def numeral_2_eq_2
      Consist_length_def example_heap_def plain_car_def RollingStock_init_def)

subsection \<open>Cargo distribution and locomotives\<close>

text \<open>
  C2 states that \<open>load_consist\<close> passes over every Locomotive, with and without a car
  type. The branch for a given car type does (\<open>isinstance(car, Locomotive)\<close>,
  \<open>continue\<close>); the branch without one has no such test and reaches \<open>car.load(cargo)\<close>
  on the locomotive, which has no such method. On the consist of the locomotive and car
  A with 220 of cargo the call ends in AttributeError, nothing loaded.
\<close>

theorem load_consist_unfiltered_locomotive:
  "load_consist example_heap 220 \<lparr>consist_number = 1, stock = [0, 1]\<rparr> None
     = (example_heap, Inl AttributeError)"
  by (simp add: load_consist_def example_heap_def)

lemma load_error: "load c m = Inl e \<Longrightarrow> e = ZeroDivisionError"
  by (cases "capacity c = 0") (auto simp: load_zero_capacity load_cases split: if_splits)

lemma load_matching_no_attribute_error:
  "snd (load_matching t h cargo cars) \<noteq> Inl AttributeError"
proof (induction t h cargo cars rule: load_matching.induct)
  case (1 t h cargo)
  show ?case by simp
next
  case (2 t h cargo car cars)
  show ?case
  proof (cases "h car")
    case (Loco l)
    with 2(1) show ?thesis by simp
  next
    case (Car c)
    show ?thesis
    proof (cases "cargo = 0")
      case True
      with Car show ?thesis by simp
    next
      case nz: False
      show ?thesis
      proof (cases "car_type c = title t")
        case False
        with Car nz 2(3) show ?thesis by simp
      next
        case match: True
        show ?thesis
        proof (cases "load c cargo")
          case (Inl e)
          then have "e = ZeroDivisionError" by (rule load_error)
          with Car nz match Inl show ?thesis by simp
        next
          case (Inr res)
          obtain c' rest where res: "res = (c', rest)" by (cases res)
          have "snd (load_matching t (h(car := Car c')) rest cars) \<noteq> Inl AttributeError"
            by (rule 2(2) [OF Car nz match Inr [unfolded res] refl])
          with Inr res Car nz match show ?thesis by simp
        qed
      qed
    qed
  qed
qed

lemma load_matching_keeps_locomotives:
  "h r = Loco l \<Longrightarrow> fst (load_matching t h cargo cars) r = Loco l"
proof (induction t h cargo cars rule: load_matching.induct)
  case (1 t h cargo)
  then show ?case by simp
next
  case (2 t h cargo car cars)
  show ?case
  proof (cases "h car")
    case (Loco l')
    with 2(1) 2(4) show ?thesis by simp
  next
    case (Car c)
    with 2(4) have ne: "r \<noteq> car" by auto
    show ?thesis
    proof (cases "cargo = 0")
      case True
      with Car 2(4) show ?thesis by simp
    next
      case nz: False
      show ?thesis
      proof (cases "car_type c = title t")
        case False
        with Car nz 2(3) 2(4) show ?thesis by simp
      next
        case match: True
        show ?thesis
        proof (cases "load c cargo")
          case (Inl e)
          with Car nz match 2(4) show ?thesis by simp
        next
          case (Inr res)
          obtain c' rest where res: "res = (c', rest)" by (cases res)
          have "(h(car := Car c')) r = Loco l" using ne 2(4) by simp
          then have "fst (load_matching t (h(car := Car c')) rest cars) r = Loco l"
            by (rule 2(2) [OF Car nz match Inr [unfolded res] refl])
          with Inr res Car nz match show ?thesis by simp
        qed
      qed
    qed
  qed
qed

text \<open>With a car type given, \<open>load_consist\<close> never ends in AttributeError and leaves
  every Locomotive as it was.\<close>

theorem load_consist_filtered_skips_locomotives:
  "snd (load_consist h cargo con (Some t)) \<noteq> Inl AttributeError \<and>
   (\<forall>r l. h r = Loco l \<longrightarrow> fst (load_consist h cargo con (Some t)) r = Loco l)"
proof -
  obtain h' res where run: "load_matching t h cargo (stock con) = (h', res)"
    by (cases "load_matching t h cargo (stock con)")
  have "res \<noteq> Inl AttributeError"
    using load_matching_no_attribute_error [of t h cargo "stock con"] run by simp
  moreover have "\<forall>r l. h r = Loco l \<longrightarrow> h' r = Loco l"
    using load_matching_keeps_locomotives [of h _ _ t cargo "stock con"] run by simp
  ultimately show ?thesis
    using run by (cases res) (auto simp: load_consist_def)
qed

theorem load_consist_filtered_skips_locomotives_witness:
  "example_heap 0 = Loco big_boy \<and>
   snd (load_consist example_heap 220 \<lparr>consist_number = 1, stock = [0, 1]\<rparr> (Some ''gondola''))
      \<noteq> Inl AttributeError \<and>
   fst (load_consist example_heap 220 \<lparr>consist_number = 1, stock = [0, 1]\<rparr> (Some ''gondola'')) 0
      = Loco big_boy"
proof -
  have loco: "example_heap 0 = Loco big_boy" by (simp add: example_heap_def)
  with load_consist_filtered_skips_locomotives
    [of example_heap 220 "\<lparr>consist_number = 1, stock = [0, 1]\<rparr>" "''gondola''"]
  show ?thesis by blast
qed

subsection \<open>unload on a full car\<close>

text \<open>On a car that is exactly full the fill ratio is 1, so \<open>unload(1)\<close> does remove the
  whole load: the weight returns to the dry mass and the fill ratio to 0.\<close>

theorem unload_full_car:
  assumes "capacity self \<noteq> 0" and "weight self = dry_mass self + capacity self"
  shows "unload self 1 = Inr (self\<lparr>weight := dry_mass self\<rparr>, capacity self) \<and>
         isfull (self\<lparr>weight := dry_mass self\<rparr>) = Inr 0"
  using assms by (simp add: unload_cases isfull_def Let_def)

theorem unload_full_car_witness:
  "capacity (example_car 50000) \<noteq> 0 \<and>
   weight (example_car 50000) = dry_mass (example_car 50000) + capacity (example_car 50000) \<and>
   unload (example_car 50000) 1 = Inr (example_car 0, 50000) \<and> isfull (example_car 0) = Inr 0"
  using unload_full_car [of "example_car 50000"]
  by (simp add: example_car_def RollingStock_init_def)

end
